theory Spec2Isabelle
  imports Main "HOL-Library.Sublist"
begin

section \<open>Python values used by Scripts/ai.py\<close>

text \<open>
  A Python \<open>str\<close> is a sequence of Unicode code points, and the reply parser replaces
  code points beyond ASCII (the full-width comma, the ideographic comma, the full-width
  semicolon), so a string is modelled as the list of its code points. The names of
  dictionary fields are ASCII literals in the source and are kept as HOL strings.
\<close>

type_synonym pystr = "nat list"

definition ascii :: "string \<Rightarrow> pystr" where
  "ascii s = map of_char s"

type_synonym pydict = "string \<rightharpoonup> pystr"

text \<open>
  The exceptions the function can meet. All of them are instances of Python's
  \<open>Exception\<close>, which is what both \<open>except Exception\<close> clauses of the source catch:
  \<open>KeyError\<close> from a dictionary subscript, \<open>IndexError\<close> from \<open>choices[0]\<close>,
  \<open>AttributeError\<close> from \<open>None.strip()\<close>, and \<open>LibraryError\<close> for whatever the
  configuration reader, the client constructor or the HTTP call raises, with its message.
\<close>

datatype exn = KeyError string | IndexError | AttributeError | LibraryError pystr

fun exn_str :: "exn \<Rightarrow> pystr" where
  "exn_str (KeyError k) = ascii [CHR 0x27] @ ascii k @ ascii [CHR 0x27]"
| "exn_str IndexError = ascii ''list index out of range''"
| "exn_str AttributeError =
     ascii ([CHR 0x27] @ ''NoneType'' @ [CHR 0x27] @ '' object has no attribute ''
            @ [CHR 0x27] @ ''strip'' @ [CHR 0x27])"
| "exn_str (LibraryError m) = m"

text \<open>What \<open>print\<close> has written so far, one entry per call.\<close>

type_synonym console = "pystr list"

subsection \<open>The methods of \<open>str\<close> the parser calls\<close>

text \<open>\<open>str.isspace\<close> on one code point: the characters \<open>str.strip()\<close> removes.\<close>

definition isspace :: "nat \<Rightarrow> bool" where
  "isspace c \<longleftrightarrow> c \<in> set [9, 10, 11, 12, 13, 28, 29, 30, 31, 32, 133, 160, 5760,
     8192, 8193, 8194, 8195, 8196, 8197, 8198, 8199, 8200, 8201, 8202,
     8232, 8233, 8239, 8287, 12288]"

text \<open>\<open>s.strip()\<close>: whitespace is removed at both ends only.\<close>

definition str_strip :: "pystr \<Rightarrow> pystr" where
  "str_strip s = rev (dropWhile isspace (rev (dropWhile isspace s)))"

text \<open>
  \<open>s.replace(old, new)\<close> for a pattern \<open>old\<close> of one code point, which is what each
  of the five calls of the source passes.
\<close>

definition str_replace :: "nat \<Rightarrow> pystr \<Rightarrow> pystr \<Rightarrow> pystr" where
  "str_replace old new s = concat (map (\<lambda>c. if c = old then new else [c]) s)"

text \<open>\<open>s.split(sep)\<close> for a separator of one code point; the empty string gives \<open>['']\<close>.\<close>

fun str_split :: "nat \<Rightarrow> pystr \<Rightarrow> pystr list" where
  "str_split sep [] = [[]]"
| "str_split sep (c # cs) =
     (if c = sep then [] # str_split sep cs
      else (case str_split sep cs of
              [] \<Rightarrow> [[c]]
            | t # ts \<Rightarrow> (c # t) # ts))"

section \<open>The world outside the function\<close>

text \<open>
  One element of \<open>response.choices\<close> is kept as its \<open>message.content\<close>, which the
  API types as an optional string.
\<close>

record chat_completion =
  choices :: "pystr option list"

text \<open>
  Everything \<open>ai_calc\<close> reads from outside is a field of the world it runs in:
  \<^item> \<open>config_json\<close>: what \<open>get_config_path\<close>, \<open>open\<close> and \<open>json.load\<close> yield together,
    an exception or the configuration object (\<open>Scripts.Utils\<close> is not part of the
    sources at hand, so the path lookup is taken as given);
  \<^item> \<open>OpenAI\<close>: the client constructor, which raises or builds a client from the key
    and the base URL;
  \<^item> \<open>chat_completions_create\<close>: the one HTTP call, from the client, the model name
    and the two messages (role and content); the constant \<open>temperature\<close> and \<open>stream\<close>
    arguments are left out;
  \<^item> \<open>random_draw\<close>: the random source read by \<open>random.choice\<close>.

  The configuration object is taken to map names to objects whose fields are strings,
  as the file written by the application does, and \<open>print\<close> is taken to succeed.
\<close>

type_synonym client = "pystr \<times> pystr"

record world =
  config_json :: "exn + (string \<rightharpoonup> pydict)"
  OpenAI :: "pystr \<Rightarrow> pystr \<Rightarrow> exn + client"
  chat_completions_create ::
    "client \<Rightarrow> pystr \<Rightarrow> (string \<times> pystr) list \<Rightarrow> exn + chat_completion"
  random_draw :: nat

text \<open>
  \<open>random.choice(seq)\<close> is \<open>seq[_randbelow(len(seq))]\<close>, and \<open>_randbelow(n)\<close> yields
  any index below \<open>n\<close>: the index is the draw reduced modulo the length. The source
  calls it on a non-empty list only.
\<close>

definition random_choice :: "nat \<Rightarrow> 'a list \<Rightarrow> 'a" where
  "random_choice draw seq = seq ! (draw mod length seq)"

section \<open>String literals of the source, as code points\<close>

definition instruction1 :: pystr where
  "instruction1 =
     [36825, 26159, 19968, 36947, 21333, 36873, 39064, 65292, 35831, 36873, 25321, 19968,
      20010, 26368, 21512, 36866, 30340, 36873, 39033, 12290, 21482, 38656, 22238, 31572,
      36873, 39033, 23383, 27597, 65292, 22914, 39, 65, 39, 12290]"

definition instruction2 :: pystr where
  "instruction2 =
     [36825, 26159, 19968, 36947, 22810, 36873, 39064, 65292, 35831, 36873, 25321, 25152,
      26377, 27491, 30830, 30340, 36873, 39033, 65288, 33267, 23569, 20004, 20010, 65289,
      12290, 21482, 38656, 22238, 31572, 36873, 39033, 23383, 27597, 65292, 22914, 39, 65,
      44, 67, 44, 68, 39, 12290, 33267, 23569, 26377, 20004, 20010, 36873, 39033, 26159,
      27491, 30830, 30340, 65292, 24182, 19988, 23425, 21487, 23569, 36873, 65288, 22914,
      21482, 36873, 26368, 26377, 21487, 33021, 30340, 20004, 39033, 65289, 20063, 19981,
      35201, 22810, 36873, 38169, 35823, 36873, 39033, 65288, 22914, 36873, 20102, 19977,
      39033, 20294, 26377, 19968, 39033, 26159, 38169, 35823, 30340, 65289, 65292, 22240,
      20026, 38169, 36873, 25110, 32773, 22810, 36873, 19981, 32473, 20998, 65292, 23569,
      36873, 21364, 26377, 19968, 21322, 30340, 20998, 25968, 12290]"

definition instruction3 :: pystr where
  "instruction3 =
     [36825, 26159, 19968, 36947, 25237, 31080, 39064, 65292, 31867, 20284, 21333, 36873,
      39064, 65292, 35831, 36873, 25321, 19968, 20010, 26368, 21512, 36866, 30340, 36873,
      39033, 12290, 21482, 38656, 22238, 31572, 36873, 39033, 23383, 27597, 65292, 22914,
      39, 65, 39, 12290]"

definition instruction_other :: pystr where
  "instruction_other =
     [35831, 20998, 26512, 36825, 20010, 38382, 39064, 65292, 24182, 36873, 25321, 27491,
      30830, 30340, 36873, 39033, 12290, 21482, 38656, 22238, 31572, 36873, 39033, 23383,
      27597, 12290]"

definition prompt_head :: pystr where
  "prompt_head = [35831, 22238, 31572, 20197, 19979, 39064, 30446, 65292]"

definition prompt_body :: pystr where
  "prompt_body = [10, 32, 32, 32, 32, 10, 39064, 30446, 65306]"

definition prompt_options :: pystr where
  "prompt_options = [10, 10, 36873, 39033, 65306, 10]"

definition prompt_tail :: pystr where
  "prompt_tail =
     [10, 10, 35831, 30452, 25509, 22238, 31572, 36873, 39033, 23383, 27597, 65292, 19981,
      35201, 26377, 20219, 20309, 35299, 37322, 25110, 20854, 20182, 25991, 23383, 12290,
      20363, 22914, 65306, 65, 32, 25110, 32, 65, 44, 66, 44, 67]"

definition system_content :: pystr where
  "system_content =
     [20320, 26159, 19968, 20010, 19987, 19994, 30340, 31572, 39064, 21161, 25163, 65292,
      21482, 22238, 31572, 36873, 39033, 23383, 27597, 65292, 19981, 20570, 20219, 20309,
      35299, 37322, 12290]"

definition msg_no_api_key :: pystr where
  "msg_no_api_key =
     [26410, 35774, 32622, 65, 80, 73, 23494, 38053, 65292, 35831, 22312, 37197, 32622,
      20013, 35774, 32622]"

definition msg_config_error :: pystr where
  "msg_config_error = [33719, 21462, 65, 73, 37197, 32622, 20986, 38169, 58, 32]"

definition msg_call_error :: pystr where
  "msg_call_error = [35843, 29992, 65, 73, 27169, 22411, 20986, 38169, 58, 32]"

section \<open>\<open>get_ai_config\<close> and \<open>get_openai_client\<close>\<close>

definition default_ai_config :: pydict where
  "default_ai_config =
     [''api_key'' \<mapsto> [], ''base_url'' \<mapsto> ascii ''https://api.deepseek.com'']"

text \<open>
  \<open>get_ai_config\<close> swallows every exception of the read, prints it and falls back to
  the defaults; a configuration without \<open>ai_config\<close> gives the defaults silently.
\<close>

definition get_ai_config :: "world \<Rightarrow> console \<times> pydict" where
  "get_ai_config w =
     (case config_json w of
        Inl e \<Rightarrow> ([msg_config_error @ exn_str e], default_ai_config)
      | Inr config \<Rightarrow>
          (case config ''ai_config'' of
             None \<Rightarrow> ([], default_ai_config)
           | Some ai_config \<Rightarrow> ([], ai_config)))"

text \<open>\<open>d.get(k, default)\<close>.\<close>

definition dict_get :: "pydict \<Rightarrow> string \<Rightarrow> pystr \<Rightarrow> pystr" where
  "dict_get d k dflt = (case d k of None \<Rightarrow> dflt | Some v \<Rightarrow> v)"

definition get_openai_client :: "world \<Rightarrow> console \<times> (exn + client)" where
  "get_openai_client w =
     (let (out, ai_config) = get_ai_config w;
          api_key = dict_get ai_config ''api_key'' [];
          base_url = dict_get ai_config ''base_url'' (ascii ''https://api.deepseek.com'');
          out' = (if api_key = [] then out @ [msg_no_api_key] else out)
      in (out', OpenAI w api_key base_url))"

section \<open>\<open>ai_calc\<close>\<close>

subsection \<open>Prompt construction (before the \<open>try\<close>)\<close>

text \<open>
  The loop \<open>for option in options: options_text += f"{option['key']}: {option['value']}\n"\<close>.
  The subscripts are evaluated left to right, so a dictionary without \<open>key\<close> raises
  \<open>KeyError('key')\<close> and one with \<open>key\<close> but without \<open>value\<close> raises
  \<open>KeyError('value')\<close>.
\<close>

fun build_options_text :: "pystr \<Rightarrow> pydict list \<Rightarrow> exn + pystr" where
  "build_options_text options_text [] = Inr options_text"
| "build_options_text options_text (option # rest) =
     (case option ''key'' of
        None \<Rightarrow> Inl (KeyError ''key'')
      | Some k \<Rightarrow>
          (case option ''value'' of
             None \<Rightarrow> Inl (KeyError ''value'')
           | Some v \<Rightarrow> build_options_text (options_text @ k @ ascii '': '' @ v @ [10]) rest))"

definition instruction_for :: "int \<Rightarrow> pystr" where
  "instruction_for problem_type =
     (if problem_type = 1 then instruction1
      else if problem_type = 2 then instruction2
      else if problem_type = 3 then instruction3
      else instruction_other)"

definition make_prompt :: "pystr \<Rightarrow> pystr \<Rightarrow> pystr \<Rightarrow> pystr" where
  "make_prompt instruction body options_text =
     prompt_head @ instruction @ prompt_body @ body @ prompt_options @ options_text
       @ prompt_tail"

subsection \<open>Reply parsing (inside the \<open>try\<close>)\<close>

text \<open>
  \<open>answer_text = content.strip()\<close>, then the chain of five \<open>replace\<close> calls: every
  ASCII space is deleted, and the full-width comma (U+FF0C), the ideographic comma
  (U+3001), the semicolon and the full-width semicolon (U+FF1B) become a comma.
\<close>

definition normalize :: "pystr \<Rightarrow> pystr" where
  "normalize content =
     str_replace 65307 [44]
       (str_replace 59 [44]
         (str_replace 12289 [44]
           (str_replace 65292 [44]
             (str_replace 32 [] (str_strip content)))))"

text \<open>\<open>if ',' in answer_text: answers = answer_text.split(',') else: answers = [answer_text]\<close>.\<close>

definition candidate_tokens :: "pystr \<Rightarrow> pystr list" where
  "candidate_tokens answer_text =
     (if 44 \<in> set answer_text then str_split 44 answer_text else [answer_text])"

text \<open>\<open>valid_options = [opt['key'] for opt in options]\<close>, with the subscript's \<open>KeyError\<close>.\<close>

fun valid_options_of :: "pydict list \<Rightarrow> exn + pystr list" where
  "valid_options_of [] = Inr []"
| "valid_options_of (opt # rest) =
     (case opt ''key'' of
        None \<Rightarrow> Inl (KeyError ''key'')
      | Some k \<Rightarrow>
          (case valid_options_of rest of
             Inl e \<Rightarrow> Inl e
           | Inr ks \<Rightarrow> Inr (k # ks)))"

text \<open>\<open>answers = [ans for ans in answers if ans in valid_options]\<close>.\<close>

definition keep_valid :: "pystr list \<Rightarrow> pystr list \<Rightarrow> pystr list" where
  "keep_valid valid_options answers = filter (\<lambda>ans. ans \<in> set valid_options) answers"

text \<open>
  The block under the source's comment "make sure a multiple-choice question has at
  least two answers": when the type is 2, fewer than two answers were kept and there
  are at least two options, one of the options not yet answered is drawn at random and
  appended, if there is one.
\<close>

definition backfill :: "nat \<Rightarrow> int \<Rightarrow> pystr list \<Rightarrow> pystr list \<Rightarrow> pystr list" where
  "backfill draw problem_type valid_options answers =
     (if problem_type = 2 \<and> length answers < 2 \<and> length valid_options \<ge> 2 then
        (let remaining_options = filter (\<lambda>opt. opt \<notin> set answers) valid_options
         in if remaining_options \<noteq> [] then answers @ [random_choice draw remaining_options]
            else answers)
      else answers)"

text \<open>From the reply's text to the returned list: lines 85 to 109 of the source.\<close>

definition parse_reply ::
  "nat \<Rightarrow> int \<Rightarrow> pydict list \<Rightarrow> pystr \<Rightarrow> exn + pystr list" where
  "parse_reply draw problem_type options content =
     (let answer_text = normalize content;
          answers = candidate_tokens answer_text
      in case valid_options_of options of
           Inl e \<Rightarrow> Inl e
         | Inr valid_options \<Rightarrow>
             Inr (backfill draw problem_type valid_options (keep_valid valid_options answers)))"

text \<open>
  The first statements of the \<open>try\<close>, up to the text that \<open>.strip()\<close> is called
  on: the client, the call and \<open>response.choices[0].message.content\<close>. An empty
  \<open>choices\<close> raises \<open>IndexError\<close>; a content of \<open>None\<close> raises
  \<open>AttributeError\<close> at \<open>.strip()\<close>.
\<close>

definition fetch_content :: "world \<Rightarrow> pystr \<Rightarrow> console \<times> (exn + pystr)" where
  "fetch_content w prompt =
     (let (out, made) = get_openai_client w
      in case made of
           Inl e \<Rightarrow> (out, Inl e)
         | Inr client \<Rightarrow>
             (case chat_completions_create w client (ascii ''deepseek-chat'')
                     [(''system'', system_content), (''user'', prompt)] of
                Inl e \<Rightarrow> (out, Inl e)
              | Inr response \<Rightarrow>
                  (case choices response of
                     [] \<Rightarrow> (out, Inl IndexError)
                   | message_content # _ \<Rightarrow>
                       (case message_content of
                          None \<Rightarrow> (out, Inl AttributeError)
                        | Some content \<Rightarrow> (out, Inr content)))))"

text \<open>The body of the \<open>try\<close>: the reply's text, then the parser.\<close>

definition try_body ::
  "world \<Rightarrow> int \<Rightarrow> pystr \<Rightarrow> pydict list \<Rightarrow> console \<times> (exn + pystr list)" where
  "try_body w problem_type prompt options =
     (let (out, got) = fetch_content w prompt
      in case got of
           Inl e \<Rightarrow> (out, Inl e)
         | Inr content \<Rightarrow>
             (out, parse_reply (random_draw w) problem_type options content))"

text \<open>
  The whole function. Its result is what it printed and either the exception that left
  it (\<open>Inl\<close>) or the list it returned (\<open>Inr\<close>). The prompt is built before the \<open>try\<close>,
  so an exception there leaves the function; an exception of the \<open>try\<close> body is
  printed after the call-error prefix and the empty list is returned.
\<close>

definition ai_calc ::
  "world \<Rightarrow> int \<Rightarrow> pystr \<Rightarrow> pydict list \<Rightarrow> console \<times> (exn + pystr list)" where
  "ai_calc w problem_type body options =
     (case build_options_text [] options of
        Inl e \<Rightarrow> ([], Inl e)
      | Inr options_text \<Rightarrow>
          (let instruction = instruction_for problem_type;
               prompt = make_prompt instruction body options_text;
               (out, r) = try_body w problem_type prompt options
           in case r of
                Inl e \<Rightarrow> (out @ [msg_call_error @ exn_str e], Inr [])
              | Inr answers \<Rightarrow> (out, Inr answers)))"

section \<open>Notions the properties are stated with\<close>

text \<open>The keys of a question's options, in order: the \<open>key\<close> field of each dictionary.\<close>

definition option_keys :: "pydict list \<Rightarrow> pystr list" where
  "option_keys options = List.map_filter (\<lambda>opt. opt ''key'') options"

text \<open>
  The text the model returns for a question in a world, when there is one: the prompt
  was built, the client was made, the call returned and its first choice carries a text.
\<close>

definition model_reply :: "world \<Rightarrow> int \<Rightarrow> pystr \<Rightarrow> pydict list \<Rightarrow> pystr option" where
  "model_reply w problem_type body options =
     (case build_options_text [] options of
        Inl e \<Rightarrow> None
      | Inr options_text \<Rightarrow>
          (case snd (fetch_content w
                       (make_prompt (instruction_for problem_type) body options_text)) of
             Inl e \<Rightarrow> None
           | Inr content \<Rightarrow> Some content))"

text \<open>
  The tokens of a reply that are option keys, in the reply's order: what the filter of
  the source keeps.
\<close>

definition kept_tokens :: "pydict list \<Rightarrow> pystr \<Rightarrow> pystr list" where
  "kept_tokens options content =
     keep_valid (option_keys options) (candidate_tokens (normalize content))"

subsection \<open>The parser as the specification words it\<close>

text \<open>
  \<open>sep.join(parts)\<close>, the inverse of \<open>split\<close>; it is used only to say what
  \<open>str_split\<close> computes.
\<close>

fun str_join :: "nat \<Rightarrow> pystr list \<Rightarrow> pystr" where
  "str_join sep [] = []"
| "str_join sep [t] = t"
| "str_join sep (t # ts) = t @ sep # str_join sep ts"

text \<open>
  The specification's parser, after its words: strip whitespace, unify the comma-like
  punctuation to one delimiter, split into tokens, keep the tokens that are option keys.
  "Strip whitespace" names no method, so it is written both ways: the whitespace at
  both ends of the text is removed (\<open>strip_ends\<close>, by two passes that do not use
  \<open>str_strip\<close>), or every whitespace character is removed (\<open>strip_all\<close>).
\<close>

fun drop_leading_space :: "pystr \<Rightarrow> pystr" where
  "drop_leading_space [] = []"
| "drop_leading_space (c # cs) = (if isspace c then drop_leading_space cs else c # cs)"

fun drop_trailing_space :: "pystr \<Rightarrow> pystr" where
  "drop_trailing_space [] = []"
| "drop_trailing_space (c # cs) =
     (let t = drop_trailing_space cs
      in if t = [] then (if isspace c then [] else [c]) else c # t)"

definition strip_ends :: "pystr \<Rightarrow> pystr" where
  "strip_ends s = drop_trailing_space (drop_leading_space s)"

definition strip_all :: "pystr \<Rightarrow> pystr" where
  "strip_all s = filter (\<lambda>c. \<not> isspace c) s"

definition unify_commas :: "pystr \<Rightarrow> pystr" where
  "unify_commas s = map (\<lambda>c. if c \<in> {65292, 12289, 59, 65307} then 44 else c) s"

definition spec_parse :: "(pystr \<Rightarrow> pystr) \<Rightarrow> pystr list \<Rightarrow> pystr \<Rightarrow> pystr list" where
  "spec_parse strip keys content =
     filter (\<lambda>tok. tok \<in> set keys) (str_split 44 (unify_commas (strip content)))"

text \<open>
  The stripping that the source turns out to do: the whitespace at both ends, and then
  every space (U+0020) wherever it stands; any other whitespace inside the text stays.
\<close>

definition strip_ends_and_spaces :: "pystr \<Rightarrow> pystr" where
  "strip_ends_and_spaces s = filter (\<lambda>c. c \<noteq> 32) (strip_ends s)"

subsection \<open>Concrete questions and worlds\<close>

text \<open>
  A world with an empty configuration file, a constructor that succeeds, a call that
  gives the stated outcome whatever it is asked, and the stated random draw.
\<close>

definition mock_world :: "(exn + chat_completion) \<Rightarrow> nat \<Rightarrow> world" where
  "mock_world outcome draw =
     \<lparr>config_json = Inr Map.empty,
      OpenAI = (\<lambda>api_key base_url. Inr (api_key, base_url)),
      chat_completions_create = (\<lambda>client model messages. outcome),
      random_draw = draw\<rparr>"

definition mock_reply :: "string \<Rightarrow> exn + chat_completion" where
  "mock_reply s = Inr \<lparr>choices = [Some (ascii s)]\<rparr>"

definition mk_option :: "string \<Rightarrow> string \<Rightarrow> pydict" where
  "mk_option k v = [''key'' \<mapsto> ascii k, ''value'' \<mapsto> ascii v]"

definition options_AB :: "pydict list" where
  "options_AB = [mk_option ''A'' ''true'', mk_option ''B'' ''false'']"

definition options_AF :: "pydict list" where
  "options_AF =
     [mk_option ''A'' ''cell theory'', mk_option ''B'' ''dialectics of nature'',
      mk_option ''C'' ''evolution of species'', mk_option ''D'' ''heliocentrism'',
      mk_option ''E'' ''biological evolution'', mk_option ''F'' ''conservation of energy'']"

text \<open>A world whose client constructor raises.\<close>

definition failing_client_world :: world where
  "failing_client_world =
     \<lparr>config_json = Inr Map.empty,
      OpenAI = (\<lambda>api_key base_url. Inl (LibraryError (ascii ''Invalid URL''))),
      chat_completions_create = (\<lambda>client model messages. Inl (LibraryError [])),
      random_draw = 0\<rparr>"

text \<open>The options text the prompt loop builds for the options A and B.\<close>

definition options_text_AB :: pystr where
  "options_text_AB = ascii ''A'' @ ascii '': '' @ ascii ''true'' @ [10]
                     @ ascii ''B'' @ ascii '': '' @ ascii ''false'' @ [10]"

section \<open>Facts about the string methods\<close>

lemma str_replace_one: "str_replace old [new] s = map (\<lambda>c. if c = old then new else c) s"
  by (induction s) (simp_all add: str_replace_def)

lemma str_replace_none: "str_replace old [] s = filter (\<lambda>c. c \<noteq> old) s"
  by (induction s) (simp_all add: str_replace_def)

lemma str_split_not_Nil: "str_split sep s \<noteq> []"
  by (induction s) (auto split: list.splits)

lemma str_split_no_sep: "t \<in> set (str_split sep s) \<Longrightarrow> sep \<notin> set t"
  by (induction s arbitrary: t) (auto split: list.splits if_splits)

lemma str_join_split: "str_join sep (str_split sep s) = s"
proof (induction s)
  case Nil
  show ?case by simp
next
  case (Cons c cs)
  obtain t ts where ts: "str_split sep cs = t # ts"
    using str_split_not_Nil [of sep cs] by (cases "str_split sep cs") auto
  show ?case
  proof (cases "c = sep")
    case True
    with Cons ts show ?thesis by simp
  next
    case False
    with Cons ts show ?thesis by (cases ts) simp_all
  qed
qed

lemma str_split_without_sep: "sep \<notin> set s \<Longrightarrow> str_split sep s = [s]"
  by (induction s) auto

lemma candidate_tokens_split: "candidate_tokens s = str_split 44 s"
  by (simp add: candidate_tokens_def str_split_without_sep)

lemma drop_leading_space_dropWhile: "drop_leading_space s = dropWhile isspace s"
  by (induction s) simp_all

lemma drop_trailing_space_rev: "drop_trailing_space s = rev (dropWhile isspace (rev s))"
proof (induction s)
  case Nil
  show ?case by simp
next
  case (Cons c cs)
  show ?case
  proof (cases "\<forall>x \<in> set cs. isspace x")
    case True
    then have "dropWhile isspace (rev cs) = []"
      by simp
    moreover from True have "dropWhile isspace (rev cs @ [c]) = dropWhile isspace [c]"
      by (intro dropWhile_append2) simp
    ultimately show ?thesis
      using Cons by (simp add: Let_def)
  next
    case False
    then obtain x where "x \<in> set (rev cs)" and "\<not> isspace x"
      by auto
    then have "dropWhile isspace (rev cs @ [c]) = dropWhile isspace (rev cs) @ [c]"
      by (rule dropWhile_append1)
    moreover from False have "dropWhile isspace (rev cs) \<noteq> []"
      by simp
    ultimately show ?thesis
      using Cons by (simp add: Let_def)
  qed
qed

lemma str_strip_ends: "str_strip s = strip_ends s"
  by (simp add: str_strip_def strip_ends_def drop_leading_space_dropWhile
      drop_trailing_space_rev)

lemma normalize_parts: "normalize content = unify_commas (strip_ends_and_spaces content)"
  by (simp add: normalize_def unify_commas_def strip_ends_and_spaces_def str_replace_one
      str_replace_none str_strip_ends)

lemma kept_tokens_parse:
  "kept_tokens options content
     = spec_parse strip_ends_and_spaces (option_keys options) content"
  by (simp add: kept_tokens_def keep_valid_def spec_parse_def candidate_tokens_split
      normalize_parts)

section \<open>Facts about the options of a question\<close>

lemma random_choice_in: "seq \<noteq> [] \<Longrightarrow> random_choice draw seq \<in> set seq"
  by (simp add: random_choice_def)

lemma build_options_text_fields:
  "build_options_text acc options = Inr t \<Longrightarrow> opt \<in> set options \<Longrightarrow>
     opt ''key'' \<noteq> None \<and> opt ''value'' \<noteq> None"
  by (induction options arbitrary: acc) (auto split: option.splits)

lemma build_options_text_error:
  "build_options_text acc options = Inl e \<Longrightarrow> e = KeyError ''key'' \<or> e = KeyError ''value''"
  by (induction options arbitrary: acc) (auto split: option.splits)

lemma build_options_text_ok:
  "(\<And>opt. opt \<in> set options \<Longrightarrow> opt ''key'' \<noteq> None \<and> opt ''value'' \<noteq> None) \<Longrightarrow>
     \<exists>t. build_options_text acc options = Inr t"
proof (induction options arbitrary: acc)
  case Nil
  show ?case by simp
next
  case (Cons opt rest)
  from Cons.prems [of opt] obtain k v where kv: "opt ''key'' = Some k" "opt ''value'' = Some v"
    by auto
  have "\<exists>t. build_options_text (acc @ k @ ascii '': '' @ v @ [10]) rest = Inr t"
    by (rule Cons.IH) (simp add: Cons.prems)
  with kv show ?case by simp
qed

lemma valid_options_of_keys:
  "\<forall>opt \<in> set options. opt ''key'' \<noteq> None \<Longrightarrow>
     valid_options_of options = Inr (option_keys options)"
  by (induction options) (auto simp: option_keys_def List.map_filter_simps)

lemma set_option_keys:
  "set (option_keys options) = {k. \<exists>opt \<in> set options. opt ''key'' = Some k}"
  by (induction options) (auto simp: option_keys_def List.map_filter_simps split: option.splits)

lemma length_option_keys:
  "\<forall>opt \<in> set options. opt ''key'' \<noteq> None \<Longrightarrow> length (option_keys options) = length options"
  by (induction options) (auto simp: option_keys_def List.map_filter_simps)

lemma set_kept_tokens: "set (kept_tokens options content) \<subseteq> set (option_keys options)"
  by (auto simp: kept_tokens_def keep_valid_def)

section \<open>Facts about the backfill\<close>

lemma backfill_appends:
  assumes "problem_type = 2" and "length answers < 2" and "2 \<le> length valid_options"
      and "\<exists>k \<in> set valid_options. k \<notin> set answers"
  shows "\<exists>k. backfill draw problem_type valid_options answers = answers @ [k]
              \<and> k \<in> set valid_options \<and> k \<notin> set answers"
proof -
  let ?remaining = "filter (\<lambda>opt. opt \<notin> set answers) valid_options"
  from assms(4) have ne: "?remaining \<noteq> []"
    by (simp add: filter_empty_conv)
  then have "random_choice draw ?remaining \<in> set ?remaining"
    by (rule random_choice_in)
  then have "random_choice draw ?remaining \<in> set valid_options"
    and "random_choice draw ?remaining \<notin> set answers"
    by simp_all
  moreover have "backfill draw problem_type valid_options answers
                   = answers @ [random_choice draw ?remaining]"
    using assms(1-3) ne by (simp add: backfill_def)
  ultimately show ?thesis by blast
qed

lemma backfill_unchanged:
  assumes "problem_type \<noteq> 2 \<or> 2 \<le> length answers \<or> length valid_options < 2
           \<or> (\<forall>k \<in> set valid_options. k \<in> set answers)"
  shows "backfill draw problem_type valid_options answers = answers"
  using assms by (auto simp: backfill_def filter_empty_conv)

lemma backfill_cases:
  "backfill draw problem_type valid_options answers = answers
   \<or> (\<exists>k. backfill draw problem_type valid_options answers = answers @ [k]
          \<and> k \<in> set valid_options \<and> k \<notin> set answers)"
proof (cases "problem_type = 2 \<and> length answers < 2 \<and> 2 \<le> length valid_options
              \<and> (\<exists>k \<in> set valid_options. k \<notin> set answers)")
  case True
  then show ?thesis using backfill_appends by blast
next
  case False
  then have "backfill draw problem_type valid_options answers = answers"
    by (intro backfill_unchanged) auto
  then show ?thesis by simp
qed

lemma backfill_any_unused:
  assumes "problem_type = 2" and "length answers < 2" and "2 \<le> length valid_options"
      and "k \<in> set valid_options" and "k \<notin> set answers"
  shows "\<exists>draw. backfill draw problem_type valid_options answers = answers @ [k]"
proof -
  let ?remaining = "filter (\<lambda>opt. opt \<notin> set answers) valid_options"
  from assms(4,5) have "k \<in> set ?remaining" by simp
  then obtain i where i: "i < length ?remaining" "?remaining ! i = k"
    by (meson in_set_conv_nth)
  then have "random_choice i ?remaining = k"
    by (simp add: random_choice_def)
  moreover from i have "?remaining \<noteq> []" by auto
  ultimately have "backfill i problem_type valid_options answers = answers @ [k]"
    using assms(1-3) by (simp add: backfill_def)
  then show ?thesis ..
qed

section \<open>The three outcomes of \<open>ai_calc\<close>\<close>

lemma ai_calc_raises:
  "build_options_text [] options = Inl e \<Longrightarrow> ai_calc w problem_type body options = ([], Inl e)"
  by (simp add: ai_calc_def)

lemma ai_calc_no_reply:
  assumes "build_options_text [] options = Inr options_text"
      and "model_reply w problem_type body options = None"
  shows "snd (ai_calc w problem_type body options) = Inr []"
  using assms
  by (auto simp: ai_calc_def model_reply_def try_body_def split: sum.splits prod.splits)

lemma ai_calc_on_reply:
  assumes "model_reply w problem_type body options = Some content"
  shows "snd (ai_calc w problem_type body options) =
           Inr (backfill (random_draw w) problem_type (option_keys options)
                  (kept_tokens options content))"
proof -
  from assms obtain options_text where b: "build_options_text [] options = Inr options_text"
    by (auto simp: model_reply_def split: sum.splits)
  then have "\<forall>opt \<in> set options. opt ''key'' \<noteq> None"
    using build_options_text_fields by blast
  then have v: "valid_options_of options = Inr (option_keys options)"
    by (rule valid_options_of_keys)
  from assms b have
    f: "snd (fetch_content w (make_prompt (instruction_for problem_type) body options_text))
          = Inr content"
    by (auto simp: model_reply_def split: sum.splits)
  show ?thesis
    using b v f
    by (auto simp: ai_calc_def try_body_def parse_reply_def kept_tokens_def
             split: sum.splits prod.splits)
qed

lemma model_reply_fields:
  assumes "model_reply w problem_type body options = Some content"
  shows "\<forall>opt \<in> set options. opt ''key'' \<noteq> None \<and> opt ''value'' \<noteq> None"
proof -
  from assms obtain options_text where "build_options_text [] options = Inr options_text"
    by (auto simp: model_reply_def split: sum.splits)
  then show ?thesis using build_options_text_fields by blast
qed

section \<open>Facts about the concrete questions and worlds\<close>

lemma mock_world_reply:
  assumes "build_options_text [] options = Inr options_text"
  shows "model_reply (mock_world (mock_reply s) draw) problem_type body options = Some (ascii s)"
  using assms
  by (simp add: model_reply_def fetch_content_def get_openai_client_def get_ai_config_def
      default_ai_config_def dict_get_def mock_world_def mock_reply_def)

lemma options_AB_built: "\<exists>t. build_options_text [] options_AB = Inr t"
  by (rule build_options_text_ok) (auto simp: options_AB_def mk_option_def)

lemma options_AF_built: "\<exists>t. build_options_text [] options_AF = Inr t"
  by (rule build_options_text_ok) (auto simp: options_AF_def mk_option_def)

lemma option_keys_AB: "option_keys options_AB = [[65], [66]]"
  by (simp add: option_keys_def List.map_filter_simps options_AB_def mk_option_def ascii_def)

lemma option_keys_AF: "option_keys options_AF = [[65], [66], [67], [68], [69], [70]]"
  by (simp add: option_keys_def List.map_filter_simps options_AF_def mk_option_def ascii_def)

lemmas parse_eval = kept_tokens_def keep_valid_def candidate_tokens_def normalize_def
  str_strip_def str_replace_def isspace_def ascii_def

lemma mock_world_fails:
  "try_body (mock_world (Inl e) draw) problem_type prompt options = ([msg_no_api_key], Inl e)"
  by (simp add: try_body_def fetch_content_def get_openai_client_def get_ai_config_def
      default_ai_config_def dict_get_def mock_world_def)

lemma mock_world_no_content:
  "try_body (mock_world (Inr \<lparr>choices = [None]\<rparr>) draw) problem_type prompt options
     = ([msg_no_api_key], Inl AttributeError)"
  by (simp add: try_body_def fetch_content_def get_openai_client_def get_ai_config_def
      default_ai_config_def dict_get_def mock_world_def)

lemma failing_client_world_fails:
  "try_body failing_client_world problem_type prompt options
     = ([msg_no_api_key], Inl (LibraryError (ascii ''Invalid URL'')))"
  by (simp add: try_body_def fetch_content_def get_openai_client_def get_ai_config_def
      default_ai_config_def dict_get_def failing_client_world_def)

lemma build_options_text_AB: "build_options_text [] options_AB = Inr options_text_AB"
  by (simp add: options_AB_def mk_option_def options_text_AB_def)

lemma mock_reply_AB:
  "model_reply (mock_world (mock_reply s) draw) problem_type body options_AB = Some (ascii s)"
  using options_AB_built mock_world_reply by blast

lemma mock_reply_AF:
  "model_reply (mock_world (mock_reply s) draw) problem_type body options_AF = Some (ascii s)"
  using options_AF_built mock_world_reply by blast

lemma mock_ai_calc_AB:
  "snd (ai_calc (mock_world (mock_reply s) draw) problem_type body options_AB)
     = Inr (backfill draw problem_type [[65], [66]] (kept_tokens options_AB (ascii s)))"
  using ai_calc_on_reply [OF mock_reply_AB, of s draw problem_type body]
  by (simp add: option_keys_AB mock_world_def)

lemma mock_ai_calc_AF:
  "snd (ai_calc (mock_world (mock_reply s) draw) problem_type body options_AF)
     = Inr (backfill draw problem_type [[65], [66], [67], [68], [69], [70]]
              (kept_tokens options_AF (ascii s)))"
  using ai_calc_on_reply [OF mock_reply_AF, of s draw problem_type body]
  by (simp add: option_keys_AF mock_world_def)

lemma try_body_client_fails:
  "snd (get_openai_client w) = Inl e \<Longrightarrow> snd (try_body w problem_type prompt options) = Inl e"
  by (cases "get_openai_client w") (simp add: try_body_def fetch_content_def)

lemma try_body_call_fails:
  "snd (get_openai_client w) = Inr client \<Longrightarrow>
   chat_completions_create w client (ascii ''deepseek-chat'')
     [(''system'', system_content), (''user'', prompt)] = Inl e \<Longrightarrow>
   snd (try_body w problem_type prompt options) = Inl e"
  by (cases "get_openai_client w") (simp add: try_body_def fetch_content_def)

lemma try_body_no_choices:
  "snd (get_openai_client w) = Inr client \<Longrightarrow>
   chat_completions_create w client (ascii ''deepseek-chat'')
     [(''system'', system_content), (''user'', prompt)] = Inr response \<Longrightarrow>
   choices response = [] \<Longrightarrow>
   snd (try_body w problem_type prompt options) = Inl IndexError"
  by (cases "get_openai_client w") (simp add: try_body_def fetch_content_def)

lemma try_body_no_content:
  "snd (get_openai_client w) = Inr client \<Longrightarrow>
   chat_completions_create w client (ascii ''deepseek-chat'')
     [(''system'', system_content), (''user'', prompt)] = Inr response \<Longrightarrow>
   choices response = None # rest \<Longrightarrow>
   snd (try_body w problem_type prompt options) = Inl AttributeError"
  by (cases "get_openai_client w") (simp add: try_body_def fetch_content_def)

lemma ai_calc_returns_once_entered:
  "build_options_text [] options = Inr options_text \<Longrightarrow>
     \<exists>answers. snd (ai_calc w problem_type body options) = Inr answers"
  by (auto simp: ai_calc_def split: sum.splits prod.splits)

section \<open>The claims\<close>

text \<open>
  C1. For every question and every text the model may return, every key in the list
  returned by \<open>ai_calc\<close> is the key of one of the question's options, whether the
  token filter kept it or the multiple-choice backfill appended it.
\<close>

theorem ai_calc_returns_option_keys:
  assumes "snd (ai_calc w problem_type body options) = Inr answers"
      and "k \<in> set answers"
  shows "\<exists>opt \<in> set options. opt ''key'' = Some k"
proof (cases "build_options_text [] options")
  case (Inl e)
  with assms(1) show ?thesis by (simp add: ai_calc_raises)
next
  case (Inr options_text)
  show ?thesis
  proof (cases "model_reply w problem_type body options")
    case None
    with Inr have "snd (ai_calc w problem_type body options) = Inr []"
      by (rule ai_calc_no_reply)
    with assms show ?thesis by simp
  next
    case (Some content)
    let ?kept = "kept_tokens options content"
    from ai_calc_on_reply [OF Some] assms(1)
    have "answers = backfill (random_draw w) problem_type (option_keys options) ?kept"
      by simp
    with backfill_cases [of "random_draw w" problem_type "option_keys options" ?kept]
    have "set answers \<subseteq> set ?kept \<union> set (option_keys options)"
      by auto
    with set_kept_tokens [of options content] assms(2)
    have "k \<in> set (option_keys options)" by auto
    then show ?thesis by (simp add: set_option_keys)
  qed
qed

theorem ai_calc_returns_option_keys_witness:
  "snd (ai_calc (mock_world (mock_reply ''B,C'') 0) 2 [] options_AF)
     = Inr [ascii ''B'', ascii ''C'']
   \<and> ascii ''B'' \<in> set [ascii ''B'', ascii ''C'']
   \<and> (\<exists>opt \<in> set options_AF. opt ''key'' = Some (ascii ''B''))"
proof -
  have r: "snd (ai_calc (mock_world (mock_reply ''B,C'') 0) 2 [] options_AF)
             = Inr [ascii ''B'', ascii ''C'']"
    by (simp add: mock_ai_calc_AF parse_eval option_keys_AF backfill_def)
  have m: "ascii ''B'' \<in> set [ascii ''B'', ascii ''C'']" by simp
  from ai_calc_returns_option_keys [OF r m] r m show ?thesis by blast
qed

text \<open>
  C2. For a multiple-choice question (type 2) with at least two options the source
  means to return at least two keys (its comment on the backfill says so), but the
  backfill appends one key only: when the reply holds no option key at all, the
  question with options A and B gets a list of one key, whatever the random draw.
\<close>

theorem multiple_choice_one_key_only:
  "snd (ai_calc (mock_world (mock_reply ''Z'') draw) 2 body options_AB)
     = Inr [random_choice draw [ascii ''A'', ascii ''B'']]"
  by (simp add: mock_ai_calc_AB parse_eval option_keys_AB backfill_def)

text \<open>
  C3, as stated (a single-choice or poll question gets at most one key), fails: a
  reply with a comma is split whatever the type, and every valid token is kept.
\<close>

theorem single_choice_two_keys:
  "snd (ai_calc (mock_world (mock_reply ''A,B'') 0) 1 [] options_AB)
     = Inr [ascii ''A'', ascii ''B'']
   \<and> \<not> length [ascii ''A'', ascii ''B''] \<le> 1"
  by (simp add: mock_ai_calc_AB parse_eval option_keys_AB backfill_def)

text \<open>
  C3, amended. For a single-choice (type 1) or poll (type 3) question, when the
  normalized reply holds no comma, \<open>ai_calc\<close> returns at most one key.
\<close>

theorem single_choice_one_key_without_comma:
  assumes "problem_type = 1 \<or> problem_type = 3"
      and "model_reply w problem_type body options = Some content"
      and "44 \<notin> set (normalize content)"
  shows "\<exists>answers. snd (ai_calc w problem_type body options) = Inr answers
                   \<and> length answers \<le> 1"
proof -
  let ?kept = "kept_tokens options content"
  from assms(1) have "problem_type \<noteq> 2" by auto
  then have "backfill (random_draw w) problem_type (option_keys options) ?kept = ?kept"
    by (intro backfill_unchanged) simp
  moreover from assms(3) have "length ?kept \<le> 1"
    by (simp add: kept_tokens_def keep_valid_def candidate_tokens_def)
  ultimately show ?thesis
    using ai_calc_on_reply [OF assms(2)] by simp
qed

theorem single_choice_one_key_without_comma_witness:
  "((3::int) = 1 \<or> (3::int) = 3)
   \<and> model_reply (mock_world (mock_reply ''B'') 0) 3 [] options_AB = Some (ascii ''B'')
   \<and> 44 \<notin> set (normalize (ascii ''B''))
   \<and> (\<exists>answers. snd (ai_calc (mock_world (mock_reply ''B'') 0) 3 [] options_AB) = Inr answers
                \<and> length answers \<le> 1)"
proof -
  have a: "(3::int) = 1 \<or> (3::int) = 3" by simp
  have b: "model_reply (mock_world (mock_reply ''B'') 0) 3 [] options_AB = Some (ascii ''B'')"
    by (rule mock_reply_AB)
  have c: "44 \<notin> set (normalize (ascii ''B''))" by (simp add: parse_eval)
  from single_choice_one_key_without_comma [OF a b c] a b c show ?thesis by blast
qed

text \<open>
  C4, as stated (the returned list never holds a key twice), fails: the filter keeps
  every valid token of the reply, so a reply that repeats a key gives a list that
  repeats it.
\<close>

theorem repeated_key_is_returned_twice:
  "snd (ai_calc (mock_world (mock_reply ''A,A'') 0) 1 [] options_AB)
     = Inr [ascii ''A'', ascii ''A'']
   \<and> \<not> distinct [ascii ''A'', ascii ''A'']"
  by (simp add: mock_ai_calc_AB parse_eval option_keys_AB backfill_def)

text \<open>
  C4, amended. When the valid tokens of the reply are pairwise distinct, the list
  returned by \<open>ai_calc\<close> holds no key twice: the backfill never appends a key that is
  already in the list.
\<close>

theorem no_duplicates_from_distinct_reply:
  assumes "model_reply w problem_type body options = Some content"
      and "distinct (kept_tokens options content)"
  shows "\<exists>answers. snd (ai_calc w problem_type body options) = Inr answers
                   \<and> distinct answers"
  using backfill_cases [of "random_draw w" problem_type "option_keys options"
                           "kept_tokens options content"]
        ai_calc_on_reply [OF assms(1)] assms(2)
  by auto

theorem no_duplicates_from_distinct_reply_witness:
  "model_reply (mock_world (mock_reply ''A;B'') 0) 2 [] options_AB = Some (ascii ''A;B'')
   \<and> distinct (kept_tokens options_AB (ascii ''A;B''))
   \<and> (\<exists>answers. snd (ai_calc (mock_world (mock_reply ''A;B'') 0) 2 [] options_AB) = Inr answers
                \<and> distinct answers)"
proof -
  have a: "model_reply (mock_world (mock_reply ''A;B'') 0) 2 [] options_AB
             = Some (ascii ''A;B'')"
    by (rule mock_reply_AB)
  have b: "distinct (kept_tokens options_AB (ascii ''A;B''))"
    by (simp add: parse_eval option_keys_AB)
  from no_duplicates_from_distinct_reply [OF a b] a b show ?thesis by blast
qed

text \<open>
  C5. Once the guarded region is entered (the prompt was built), whenever a step of
  the \<open>try\<close> body fails (the client constructor, the network call, the reading or
  parsing of the reply), \<open>ai_calc\<close> returns the empty list, having printed the
  call-error message with the exception's text after whatever was printed before, and
  no exception reaches the caller.
\<close>

theorem guarded_failure_returns_empty_list:
  assumes "build_options_text [] options = Inr options_text"
      and "snd (try_body w problem_type
                  (make_prompt (instruction_for problem_type) body options_text) options)
             = Inl e"
  shows "ai_calc w problem_type body options
           = (fst (try_body w problem_type
                     (make_prompt (instruction_for problem_type) body options_text) options)
                @ [msg_call_error @ exn_str e],
              Inr [])"
  using assms
  by (cases "try_body w problem_type
               (make_prompt (instruction_for problem_type) body options_text) options")
     (simp add: ai_calc_def)

theorem guarded_failure_returns_empty_list_witness:
  "build_options_text [] options_AB = Inr options_text_AB
   \<and> snd (try_body (mock_world (Inl (LibraryError (ascii ''Connection error.''))) 0) 2
            (make_prompt (instruction_for 2) [] options_text_AB) options_AB)
       = Inl (LibraryError (ascii ''Connection error.''))
   \<and> ai_calc (mock_world (Inl (LibraryError (ascii ''Connection error.''))) 0) 2 []
         options_AB
       = ([msg_no_api_key, msg_call_error @ ascii ''Connection error.''], Inr [])
   \<and> ai_calc (mock_world (Inr \<lparr>choices = [None]\<rparr>) 0) 2 [] options_AB
       = ([msg_no_api_key, msg_call_error @ exn_str AttributeError], Inr [])
   \<and> ai_calc failing_client_world 2 [] options_AB
       = ([msg_no_api_key, msg_call_error @ ascii ''Invalid URL''], Inr [])"
proof -
  let ?p = "make_prompt (instruction_for 2) [] options_text_AB"
  note b = build_options_text_AB
  have f1: "snd (try_body (mock_world (Inl (LibraryError (ascii ''Connection error.''))) 0) 2
                   ?p options_AB)
              = Inl (LibraryError (ascii ''Connection error.''))"
    by (simp add: mock_world_fails)
  have f2: "snd (try_body (mock_world (Inr \<lparr>choices = [None]\<rparr>) 0) 2 ?p options_AB)
              = Inl AttributeError"
    by (simp add: mock_world_no_content)
  have f3: "snd (try_body failing_client_world 2 ?p options_AB)
              = Inl (LibraryError (ascii ''Invalid URL''))"
    by (simp add: failing_client_world_fails)
  from guarded_failure_returns_empty_list [OF b f1]
       guarded_failure_returns_empty_list [OF b f2]
       guarded_failure_returns_empty_list [OF b f3] b f1
  show ?thesis
    by (simp add: mock_world_fails mock_world_no_content failing_client_world_fails)
qed

text \<open>
  C6. With \<open>kept\<close> the valid tokens of the reply: for a multiple-choice question
  (type 2) where fewer than two keys were kept, the question has at least two options
  and some option key is not yet in the list, \<open>ai_calc\<close> returns \<open>kept\<close> with exactly
  one key appended, an option key that is not in \<open>kept\<close>; when the type is not 2 or
  no option key is unused, it returns \<open>kept\<close> with nothing appended.
\<close>

theorem backfill_rule:
  assumes "model_reply w problem_type body options = Some content"
  shows "(problem_type = 2 \<and> length (kept_tokens options content) < 2
            \<and> 2 \<le> length options
            \<and> (\<exists>k \<in> set (option_keys options). k \<notin> set (kept_tokens options content))
          \<longrightarrow> (\<exists>k. snd (ai_calc w problem_type body options)
                        = Inr (kept_tokens options content @ [k])
                    \<and> k \<in> set (option_keys options)
                    \<and> k \<notin> set (kept_tokens options content)))
       \<and> (problem_type \<noteq> 2
            \<or> (\<forall>k \<in> set (option_keys options). k \<in> set (kept_tokens options content))
          \<longrightarrow> snd (ai_calc w problem_type body options)
                = Inr (kept_tokens options content))"
proof -
  let ?kept = "kept_tokens options content"
  let ?keys = "option_keys options"
  note r = ai_calc_on_reply [OF assms]
  from model_reply_fields [OF assms] have len: "length ?keys = length options"
    by (simp add: length_option_keys)
  have one: "\<exists>k. snd (ai_calc w problem_type body options) = Inr (?kept @ [k])
                 \<and> k \<in> set ?keys \<and> k \<notin> set ?kept"
    if "problem_type = 2" "length ?kept < 2" "2 \<le> length options"
       "\<exists>k \<in> set ?keys. k \<notin> set ?kept"
    using backfill_appends [of problem_type ?kept ?keys "random_draw w"] that len r
    by auto
  have none: "snd (ai_calc w problem_type body options) = Inr ?kept"
    if "problem_type \<noteq> 2 \<or> (\<forall>k \<in> set ?keys. k \<in> set ?kept)"
  proof -
    from that have "backfill (random_draw w) problem_type ?keys ?kept = ?kept"
      by (intro backfill_unchanged) auto
    with r show ?thesis by simp
  qed
  from one none show ?thesis by blast
qed

theorem backfill_rule_witness:
  "model_reply (mock_world (mock_reply ''A'') 0) 2 [] options_AB = Some (ascii ''A'')
   \<and> length (kept_tokens options_AB (ascii ''A'')) < 2
   \<and> 2 \<le> length options_AB
   \<and> (\<exists>k \<in> set (option_keys options_AB). k \<notin> set (kept_tokens options_AB (ascii ''A'')))
   \<and> (\<exists>k. snd (ai_calc (mock_world (mock_reply ''A'') 0) 2 [] options_AB)
              = Inr (kept_tokens options_AB (ascii ''A'') @ [k])
          \<and> k \<in> set (option_keys options_AB)
          \<and> k \<notin> set (kept_tokens options_AB (ascii ''A'')))
   \<and> model_reply (mock_world (mock_reply ''A'') 0) 1 [] options_AB = Some (ascii ''A'')
   \<and> snd (ai_calc (mock_world (mock_reply ''A'') 0) 1 [] options_AB)
       = Inr (kept_tokens options_AB (ascii ''A''))"
proof -
  have a2: "model_reply (mock_world (mock_reply ''A'') 0) 2 [] options_AB = Some (ascii ''A'')"
    by (rule mock_reply_AB)
  have a1: "model_reply (mock_world (mock_reply ''A'') 0) 1 [] options_AB = Some (ascii ''A'')"
    by (rule mock_reply_AB)
  have k: "kept_tokens options_AB (ascii ''A'') = [[65]]"
    by (simp add: parse_eval option_keys_AB)
  have h1: "length (kept_tokens options_AB (ascii ''A'')) < 2" by (simp add: k)
  have h2: "2 \<le> length options_AB" by (simp add: options_AB_def)
  have h3: "\<exists>k \<in> set (option_keys options_AB). k \<notin> set (kept_tokens options_AB (ascii ''A''))"
    by (simp add: k option_keys_AB)
  have h4: "(1::int) \<noteq> 2" by simp
  from backfill_rule [OF a2] backfill_rule [OF a1] a1 a2 h1 h2 h3 h4
  show ?thesis by blast
qed

text \<open>
  C7, as stated (no token of the reply is an option key, so the empty list is
  returned), fails for a multiple-choice question with at least two options: the
  backfill appends one option key to the empty list.
\<close>

theorem invalid_reply_backfilled:
  "kept_tokens options_AF (ascii ''Z'') = []
   \<and> snd (ai_calc (mock_world (mock_reply ''Z'') 4) 2 [] options_AF) = Inr [ascii ''E'']
   \<and> [ascii ''E''] \<noteq> []"
  by (simp add: mock_ai_calc_AF parse_eval option_keys_AF backfill_def random_choice_def)

text \<open>
  C7, amended. When no token of the normalized reply is an option key and the
  question is not a multiple-choice question with at least two options, \<open>ai_calc\<close>
  returns the empty list.
\<close>

theorem invalid_reply_returns_empty_list:
  assumes "model_reply w problem_type body options = Some content"
      and "\<forall>tok \<in> set (candidate_tokens (normalize content)). tok \<notin> set (option_keys options)"
      and "problem_type \<noteq> 2 \<or> length options < 2"
  shows "snd (ai_calc w problem_type body options) = Inr []"
proof -
  from assms(2) have k: "kept_tokens options content = []"
    by (simp add: kept_tokens_def keep_valid_def filter_empty_conv)
  from model_reply_fields [OF assms(1)] have "length (option_keys options) = length options"
    by (simp add: length_option_keys)
  with assms(3)
  have "backfill (random_draw w) problem_type (option_keys options) [] = []"
    by (intro backfill_unchanged) auto
  with ai_calc_on_reply [OF assms(1)] k show ?thesis by simp
qed

theorem invalid_reply_returns_empty_list_witness:
  "model_reply (mock_world (mock_reply ''Z'') 0) 1 [] options_AB = Some (ascii ''Z'')
   \<and> candidate_tokens (normalize (ascii ''Z'')) = [ascii ''Z'']
   \<and> ascii ''Z'' \<notin> set (option_keys options_AB)
   \<and> (1::int) \<noteq> 2
   \<and> snd (ai_calc (mock_world (mock_reply ''Z'') 0) 1 [] options_AB) = Inr []"
proof -
  have a: "model_reply (mock_world (mock_reply ''Z'') 0) 1 [] options_AB = Some (ascii ''Z'')"
    by (rule mock_reply_AB)
  have t: "candidate_tokens (normalize (ascii ''Z'')) = [ascii ''Z'']"
    by (simp add: parse_eval)
  have n: "ascii ''Z'' \<notin> set (option_keys options_AB)"
    by (simp add: option_keys_AB ascii_def)
  have b: "\<forall>tok \<in> set (candidate_tokens (normalize (ascii ''Z''))).
             tok \<notin> set (option_keys options_AB)"
    using n by (simp add: t)
  have d: "(1::int) \<noteq> 2" by simp
  then have c: "(1::int) \<noteq> 2 \<or> length options_AB < 2" by simp
  from invalid_reply_returns_empty_list [OF a b c] a t n d show ?thesis by blast
qed

text \<open>
  C8, as stated (the parser strips whitespace, turns the full-width comma, the
  ideographic comma, the semicolon and the full-width semicolon into a comma, splits
  at the commas and keeps exactly the tokens that are option keys), fails under both
  readings of "stripping whitespace". Read as stripping both ends, the stated parser
  keeps only B of the reply "B, C", and the source keeps B and C, since it deletes
  every space. Read as stripping everywhere, the stated parser keeps B and C of the
  reply "B,", newline, "C", and the source keeps only B, since it leaves a newline
  inside the text alone.
\<close>

theorem stated_parser_differs:
  "snd (ai_calc (mock_world (mock_reply ''B, C'') 0) 1 [] options_AF)
     = Inr [ascii ''B'', ascii ''C'']
   \<and> spec_parse strip_ends (option_keys options_AF) (ascii ''B, C'') = [ascii ''B'']
   \<and> snd (ai_calc (mock_world (mock_reply (''B,'' @ [CHR 0x0A] @ ''C'')) 0) 1 []
            options_AF)
       = Inr [ascii ''B'']
   \<and> spec_parse strip_all (option_keys options_AF) (ascii (''B,'' @ [CHR 0x0A] @ ''C''))
       = [ascii ''B'', ascii ''C'']"
proof (intro conjI)
  show "snd (ai_calc (mock_world (mock_reply ''B, C'') 0) 1 [] options_AF)
          = Inr [ascii ''B'', ascii ''C'']"
    by (simp add: mock_ai_calc_AF parse_eval option_keys_AF backfill_def)
next
  show "spec_parse strip_ends (option_keys options_AF) (ascii ''B, C'') = [ascii ''B'']"
    by (simp add: spec_parse_def unify_commas_def strip_ends_def isspace_def ascii_def
        option_keys_AF)
next
  show "snd (ai_calc (mock_world (mock_reply (''B,'' @ [CHR 0x0A] @ ''C'')) 0) 1 []
               options_AF)
          = Inr [ascii ''B'']"
    by (simp add: mock_ai_calc_AF parse_eval option_keys_AF backfill_def)
next
  show "spec_parse strip_all (option_keys options_AF) (ascii (''B,'' @ [CHR 0x0A] @ ''C''))
          = [ascii ''B'', ascii ''C'']"
    by (simp add: spec_parse_def unify_commas_def strip_all_def isspace_def ascii_def
        option_keys_AF)
qed

text \<open>
  C8, amended. The reply parser removes the whitespace at both ends of the model's
  text and then every space (U+0020) wherever it stands, leaving any other whitespace
  inside the text; it turns the full-width comma, the ideographic comma, the
  semicolon and the full-width semicolon into a comma, splits at the commas and keeps
  exactly the tokens that are option keys (which then go to the backfill). In
  particular, type 2 with options A to F and reply "B,C" gives ["B","C"], and type 1
  with options A and B and reply "A" gives ["A"].
\<close>

theorem reply_parser_strips_ends_and_spaces:
  "(model_reply w problem_type body options = Some content \<longrightarrow>
      snd (ai_calc w problem_type body options)
        = Inr (backfill (random_draw w) problem_type (option_keys options)
                 (spec_parse strip_ends_and_spaces (option_keys options) content)))
   \<and> snd (ai_calc (mock_world (mock_reply ''B,C'') draw) 2 body2 options_AF)
       = Inr [ascii ''B'', ascii ''C'']
   \<and> snd (ai_calc (mock_world (mock_reply ''A'') draw) 1 body1 options_AB)
       = Inr [ascii ''A'']"
proof (intro conjI impI)
  assume "model_reply w problem_type body options = Some content"
  then show "snd (ai_calc w problem_type body options)
               = Inr (backfill (random_draw w) problem_type (option_keys options)
                        (spec_parse strip_ends_and_spaces (option_keys options) content))"
    by (simp add: ai_calc_on_reply kept_tokens_parse)
next
  show "snd (ai_calc (mock_world (mock_reply ''B,C'') draw) 2 body2 options_AF)
          = Inr [ascii ''B'', ascii ''C'']"
    by (simp add: mock_ai_calc_AF parse_eval option_keys_AF backfill_def)
next
  show "snd (ai_calc (mock_world (mock_reply ''A'') draw) 1 body1 options_AB)
          = Inr [ascii ''A'']"
    by (simp add: mock_ai_calc_AB parse_eval option_keys_AB backfill_def)
qed

theorem reply_parser_strips_ends_and_spaces_witness:
  "model_reply (mock_world (mock_reply ([CHR 0x09] @ ''B, C;D'' @ [CHR 0x0A])) 0) 2 []
       options_AF
     = Some (ascii ([CHR 0x09] @ ''B, C;D'' @ [CHR 0x0A]))
   \<and> spec_parse strip_ends_and_spaces (option_keys options_AF)
         (ascii ([CHR 0x09] @ ''B, C;D'' @ [CHR 0x0A]))
       = [ascii ''B'', ascii ''C'', ascii ''D'']
   \<and> snd (ai_calc (mock_world (mock_reply ([CHR 0x09] @ ''B, C;D'' @ [CHR 0x0A])) 0) 2 []
            options_AF)
       = Inr [ascii ''B'', ascii ''C'', ascii ''D'']
   \<and> model_reply (mock_world (mock_reply (''A,'' @ [CHR 0x0A] @ ''B'')) 0) 1 []
         options_AB
       = Some (ascii (''A,'' @ [CHR 0x0A] @ ''B''))
   \<and> spec_parse strip_ends_and_spaces (option_keys options_AB)
         (ascii (''A,'' @ [CHR 0x0A] @ ''B''))
       = [ascii ''A'']
   \<and> snd (ai_calc (mock_world (mock_reply (''A,'' @ [CHR 0x0A] @ ''B'')) 0) 1 []
            options_AB)
       = Inr [ascii ''A'']"
proof -
  let ?r = "[CHR 0x09] @ ''B, C;D'' @ [CHR 0x0A]"
  let ?q = "''A,'' @ [CHR 0x0A] @ ''B''"
  have a: "model_reply (mock_world (mock_reply ?r) 0) 2 [] options_AF = Some (ascii ?r)"
    by (rule mock_reply_AF)
  have b: "spec_parse strip_ends_and_spaces (option_keys options_AF) (ascii ?r)
             = [ascii ''B'', ascii ''C'', ascii ''D'']"
    by (simp add: spec_parse_def unify_commas_def strip_ends_and_spaces_def strip_ends_def
        isspace_def ascii_def option_keys_AF)
  from reply_parser_strips_ends_and_spaces
         [of "mock_world (mock_reply ?r) 0" 2 "[]" options_AF "ascii ?r"] a
  have "snd (ai_calc (mock_world (mock_reply ?r) 0) 2 [] options_AF)
          = Inr (backfill 0 2 (option_keys options_AF)
                   (spec_parse strip_ends_and_spaces (option_keys options_AF) (ascii ?r)))"
    by (simp add: mock_world_def)
  then have c: "snd (ai_calc (mock_world (mock_reply ?r) 0) 2 [] options_AF)
                  = Inr [ascii ''B'', ascii ''C'', ascii ''D'']"
    unfolding b by (simp add: backfill_def)
  have a': "model_reply (mock_world (mock_reply ?q) 0) 1 [] options_AB = Some (ascii ?q)"
    by (rule mock_reply_AB)
  have b': "spec_parse strip_ends_and_spaces (option_keys options_AB) (ascii ?q)
              = [ascii ''A'']"
    by (simp add: spec_parse_def unify_commas_def strip_ends_and_spaces_def strip_ends_def
        isspace_def ascii_def option_keys_AB)
  from reply_parser_strips_ends_and_spaces
         [of "mock_world (mock_reply ?q) 0" 1 "[]" options_AB "ascii ?q"] a'
  have "snd (ai_calc (mock_world (mock_reply ?q) 0) 1 [] options_AB)
          = Inr (backfill 0 1 (option_keys options_AB)
                   (spec_parse strip_ends_and_spaces (option_keys options_AB) (ascii ?q)))"
    by (simp add: mock_world_def)
  then have c': "snd (ai_calc (mock_world (mock_reply ?q) 0) 1 [] options_AB)
                   = Inr [ascii ''A'']"
    unfolding b' by (simp add: backfill_def)
  from a b c a' b' c' show ?thesis by blast
qed

text \<open>
  C9. Before any backfill the list is exactly the tokens of the normalized reply
  that are option keys, in the order of the reply (a subsequence of the tokens); the
  backfill adds at most one key, at the end.
\<close>

theorem answers_keep_reply_order:
  assumes "model_reply w problem_type body options = Some content"
  shows "\<exists>extra. snd (ai_calc w problem_type body options)
                   = Inr (kept_tokens options content @ extra)
               \<and> length extra \<le> 1
               \<and> kept_tokens options content
                   = filter (\<lambda>tok. tok \<in> set (option_keys options))
                       (candidate_tokens (normalize content))
               \<and> subseq (kept_tokens options content) (candidate_tokens (normalize content))"
proof -
  let ?kept = "kept_tokens options content"
  have f: "?kept = filter (\<lambda>tok. tok \<in> set (option_keys options))
                     (candidate_tokens (normalize content))"
    by (simp add: kept_tokens_def keep_valid_def)
  then have s: "subseq ?kept (candidate_tokens (normalize content))"
    by simp
  from backfill_cases [of "random_draw w" problem_type "option_keys options" ?kept]
       ai_calc_on_reply [OF assms]
  have "\<exists>extra. snd (ai_calc w problem_type body options) = Inr (?kept @ extra)
               \<and> length extra \<le> 1"
  proof (elim disjE exE conjE)
    assume "backfill (random_draw w) problem_type (option_keys options) ?kept = ?kept"
       and "snd (ai_calc w problem_type body options)
              = Inr (backfill (random_draw w) problem_type (option_keys options) ?kept)"
    then have "snd (ai_calc w problem_type body options) = Inr (?kept @ [])
               \<and> length ([] :: pystr list) \<le> 1"
      by simp
    then show ?thesis by blast
  next
    fix k
    assume "backfill (random_draw w) problem_type (option_keys options) ?kept = ?kept @ [k]"
       and "snd (ai_calc w problem_type body options)
              = Inr (backfill (random_draw w) problem_type (option_keys options) ?kept)"
    then have "snd (ai_calc w problem_type body options) = Inr (?kept @ [k])
               \<and> length [k] \<le> 1"
      by simp
    then show ?thesis by blast
  qed
  with f s show ?thesis by blast
qed

theorem answers_keep_reply_order_witness:
  "model_reply (mock_world (mock_reply ''C,Z,A'') 0) 1 [] options_AF = Some (ascii ''C,Z,A'')
   \<and> candidate_tokens (normalize (ascii ''C,Z,A'')) = [ascii ''C'', ascii ''Z'', ascii ''A'']
   \<and> kept_tokens options_AF (ascii ''C,Z,A'') = [ascii ''C'', ascii ''A'']
   \<and> (\<exists>extra. snd (ai_calc (mock_world (mock_reply ''C,Z,A'') 0) 1 [] options_AF)
                 = Inr (kept_tokens options_AF (ascii ''C,Z,A'') @ extra)
             \<and> length extra \<le> 1
             \<and> kept_tokens options_AF (ascii ''C,Z,A'')
                 = filter (\<lambda>tok. tok \<in> set (option_keys options_AF))
                     (candidate_tokens (normalize (ascii ''C,Z,A'')))
             \<and> subseq (kept_tokens options_AF (ascii ''C,Z,A''))
                 (candidate_tokens (normalize (ascii ''C,Z,A''))))"
proof -
  have a: "model_reply (mock_world (mock_reply ''C,Z,A'') 0) 1 [] options_AF
             = Some (ascii ''C,Z,A'')"
    by (rule mock_reply_AF)
  have b: "candidate_tokens (normalize (ascii ''C,Z,A''))
             = [ascii ''C'', ascii ''Z'', ascii ''A'']"
    by (simp add: parse_eval)
  have c: "kept_tokens options_AF (ascii ''C,Z,A'') = [ascii ''C'', ascii ''A'']"
    by (simp add: parse_eval option_keys_AF)
  from answers_keep_reply_order [OF a] a b c show ?thesis by blast
qed

text \<open>
  C10. The prompt is built before the \<open>try\<close>: when some dictionary of the options
  list has no \<open>key\<close> field or no \<open>value\<close> field, \<open>ai_calc\<close> prints nothing and a
  \<open>KeyError\<close> leaves it, in any world, instead of the empty list being returned.
\<close>

theorem missing_field_raises_KeyError:
  assumes "opt \<in> set options"
      and "opt ''key'' = None \<or> opt ''value'' = None"
  shows "ai_calc w problem_type body options = ([], Inl (KeyError ''key''))
         \<or> ai_calc w problem_type body options = ([], Inl (KeyError ''value''))"
proof (cases "build_options_text [] options")
  case (Inl e)
  then have "ai_calc w problem_type body options = ([], Inl e)"
    by (rule ai_calc_raises)
  with build_options_text_error [OF Inl] show ?thesis by auto
next
  case (Inr options_text)
  from build_options_text_fields [OF Inr assms(1)] assms(2) show ?thesis by auto
qed

theorem missing_field_raises_KeyError_witness:
  "[''key'' \<mapsto> ascii ''A''] \<in> set [mk_option ''B'' ''false'', [''key'' \<mapsto> ascii ''A'']]
   \<and> ([''key'' \<mapsto> ascii ''A''] ''key'' = None \<or> [''key'' \<mapsto> ascii ''A''] ''value'' = None)
   \<and> ai_calc (mock_world (mock_reply ''A'') 0) 1 []
         [mk_option ''B'' ''false'', [''key'' \<mapsto> ascii ''A'']]
       = ([], Inl (KeyError ''value''))"
proof -
  have a: "[''key'' \<mapsto> ascii ''A'']
             \<in> set [mk_option ''B'' ''false'', [''key'' \<mapsto> ascii ''A'']]"
    by simp
  have b: "[''key'' \<mapsto> ascii ''A''] ''key'' = None \<or> [''key'' \<mapsto> ascii ''A''] ''value'' = None"
    by simp
  have c: "ai_calc (mock_world (mock_reply ''A'') 0) 1 []
             [mk_option ''B'' ''false'', [''key'' \<mapsto> ascii ''A'']]
           \<noteq> ([], Inl (KeyError ''key''))"
    by (simp add: ai_calc_def mk_option_def)
  from missing_field_raises_KeyError [OF a b, of "mock_world (mock_reply ''A'') 0" 1 "[]"] c a b
  show ?thesis by blast
qed

end
